theory Spec2Isabelle
  imports
    Complex_Main
    "HOL-Library.Word"
    "HOL-Library.Char_ord"
    "HOL-Library.List_Lexorder"
    "HOL-Library.Product_Lexorder"
    "HOL-Library.Multiset"
begin

unbundle bit_operations_syntax

section \<open>Values of the Python program\<close>

text \<open>
  The program is \<^verbatim>\<open>src/calculator.py\<close>.  Its floating-point numbers are modelled as
  real numbers extended with the not-a-number value: every comparison with \<open>NaN\<close> is
  false, every arithmetic operation on \<open>NaN\<close> gives \<open>NaN\<close>.  Rounding, overflow and the
  infinities are not modelled.
\<close>

datatype fl = NaN | Fin real

fun fl_ge :: "fl \<Rightarrow> fl \<Rightarrow> bool" where
  "fl_ge (Fin a) (Fin b) = (b \<le> a)"
| "fl_ge _ _ = False"

fun fl_le :: "fl \<Rightarrow> fl \<Rightarrow> bool" where
  "fl_le (Fin a) (Fin b) = (a \<le> b)"
| "fl_le _ _ = False"

fun fl_lt :: "fl \<Rightarrow> fl \<Rightarrow> bool" where
  "fl_lt (Fin a) (Fin b) = (a < b)"
| "fl_lt _ _ = False"

fun fl_sub :: "fl \<Rightarrow> fl \<Rightarrow> fl" where
  "fl_sub (Fin a) (Fin b) = Fin (a - b)"
| "fl_sub _ _ = NaN"

text \<open>The exceptions the modelled code raises; a raised exception is the \<open>Inl\<close> of a sum.\<close>

datatype error =
    ValueError string
  | IndexError
  | KeyError string
  | ZeroDivisionError
  | TypeError string
  | NetworkError

text \<open>
  Calendar dates are modelled by their proleptic ordinal (\<^verbatim>\<open>date.toordinal()\<close>), so that
  \<^verbatim>\<open>today + timedelta(days=45)\<close> is \<open>today + 45\<close> and \<^verbatim>\<open>(d - today).days\<close> is
  \<open>d - today\<close>.  A date string \<^verbatim>\<open>%Y-%m-%d\<close> and the date it denotes are identified.
\<close>

type_synonym date = int


section \<open>ProxyManager\<close>

text \<open>A proxy is the dictionary \<^verbatim>\<open>{'http': ..., 'https': ...}\<close>.\<close>

record proxy =
  http :: string
  https :: string

record ProxyManager =
  proxies :: "proxy list"
  current_proxy :: "proxy option"
  proxy_enabled :: bool

text \<open>
  \<^verbatim>\<open>random.choice(seq)\<close> on a non-empty sequence: the random draw is the argument \<open>r\<close>,
  every element of the sequence is reachable by some draw.  On an empty sequence it raises
  \<^verbatim>\<open>IndexError\<close>.
\<close>

definition random_choice :: "nat \<Rightarrow> 'a list \<Rightarrow> error + 'a" where
  "random_choice r xs = (if xs = [] then Inl IndexError else Inr (xs ! (r mod length xs)))"

text \<open>\<^verbatim>\<open>ProxyManager.get_proxy\<close> (lines 186-190).\<close>

definition get_proxy :: "nat \<Rightarrow> ProxyManager \<Rightarrow> proxy option \<times> ProxyManager" where
  "get_proxy r pm =
     (if \<not> proxy_enabled pm \<or> proxies pm = [] then (None, pm)
      else (case random_choice r (proxies pm) of
              Inr p \<Rightarrow> (Some p, pm\<lparr>current_proxy := Some p\<rparr>)
            | Inl e \<Rightarrow> (None, pm)))"

text \<open>
  \<^verbatim>\<open>ProxyManager.rotate_proxy\<close> (lines 192-199).  The comparison \<^verbatim>\<open>p != self.current_proxy\<close>
  is true for every \<open>p\<close> when no proxy is current (\<^verbatim>\<open>None\<close>).
\<close>

definition rotate_proxy :: "nat \<Rightarrow> ProxyManager \<Rightarrow> proxy option \<times> ProxyManager" where
  "rotate_proxy r pm =
     (if \<not> proxy_enabled pm \<or> length (proxies pm) \<le> 1 then (None, pm)
      else
        let av = filter (\<lambda>p. Some p \<noteq> current_proxy pm) (proxies pm)
        in if av \<noteq> [] then
             (case random_choice r av of
                Inr p \<Rightarrow> (Some p, pm\<lparr>current_proxy := Some p\<rparr>)
              | Inl e \<Rightarrow> (None, pm))
           else (None, pm))"


section \<open>OptionsAnalyzer: expiration dates\<close>

text \<open>
  \<^verbatim>\<open>OptionsAnalyzer.filter_dates\<close> (lines 265-278).  The loop
  \<^verbatim>\<open>for i,d in enumerate(sdates): if d>=cutoff: arr = sdates[:i+1]; break\<close>
  is the search for the first index whose date reaches the cutoff.
\<close>

fun first_from :: "date \<Rightarrow> date list \<Rightarrow> nat \<Rightarrow> nat option" where
  "first_from cutoff [] i = None"
| "first_from cutoff (d # ds) i =
     (if cutoff \<le> d then Some i else first_from cutoff ds (Suc i))"

definition filter_dates :: "date \<Rightarrow> date list \<Rightarrow> error + date list" where
  "filter_dates today dates =
     (let cutoff = today + 45;
          sdates = sort dates;
          arr = (case first_from cutoff sdates 0 of
                   Some i \<Rightarrow> take (i + 1) sdates
                 | None \<Rightarrow> [])
      in if arr \<noteq> [] then
           (if hd arr = today then Inr (tl arr) else Inr arr)
         else Inl (ValueError ''No date 45+ days out found.''))"

text \<open>
  The specification's reading of the same operation: the sorted dates that come before the
  45-day horizon, followed by the first sorted date that reaches it.
\<close>

definition prefix_to_horizon :: "date \<Rightarrow> date list \<Rightarrow> date list" where
  "prefix_to_horizon cutoff dates =
     takeWhile (\<lambda>d. d < cutoff) (sort dates) @ take 1 (dropWhile (\<lambda>d. d < cutoff) (sort dates))"


section \<open>OptionsAnalyzer: the term structure\<close>

text \<open>
  \<^verbatim>\<open>numpy.argsort\<close>: the indices that sort the array.  Where two days are equal the model
  keeps their input order; NumPy promises no order there.
\<close>

definition argsort :: "int list \<Rightarrow> nat list" where
  "argsort xs = map snd (sort_key fst (zip xs [0..<length xs]))"

text \<open>
  \<^verbatim>\<open>scipy.interpolate.interp1d(x, y, kind='linear', fill_value="extrapolate")\<close>, called
  on a point \<open>x_new\<close>.  SciPy evaluates it as follows: \<^verbatim>\<open>searchsorted\<close> counts the knots
  below \<open>x_new\<close>, the count is clipped to \<open>1 .. len(x) - 1\<close> (\<^verbatim>\<open>numpy.clip\<close> takes the
  minimum of the upper bound and the maximum with the lower bound), and the line through the
  knots \<open>lo = i - 1\<close> and \<open>hi = i\<close> is evaluated.  A negative index counts from the end,
  as in Python.  When the two knots have the same abscissa the slope is a division by zero:
  NumPy gives an infinity or a not-a-number, and the product with \<open>x_new - x_lo = 0\<close> is a
  not-a-number; within the knot range that is the only case where the abscissas coincide.
\<close>

definition searchsorted :: "real list \<Rightarrow> real \<Rightarrow> nat" where
  "searchsorted x x_new = length (filter (\<lambda>a. a < x_new) x)"

definition py_nth :: "'a list \<Rightarrow> int \<Rightarrow> 'a" where
  "py_nth xs i = (if i < 0 then xs ! nat (int (length xs) + i) else xs ! nat i)"

definition interp1d_linear :: "real list \<Rightarrow> real list \<Rightarrow> real \<Rightarrow> fl" where
  "interp1d_linear x y x_new =
     (let i = min (max (int (searchsorted x x_new)) 1) (int (length x) - 1);
          lo = i - 1;
          hi = i;
          x_lo = py_nth x lo;
          x_hi = py_nth x hi;
          y_lo = py_nth y lo;
          y_hi = py_nth y hi
      in if x_hi = x_lo then NaN
         else Fin ((y_hi - y_lo) / (x_hi - x_lo) * (x_new - x_lo) + y_lo))"

text \<open>
  \<^verbatim>\<open>OptionsAnalyzer.build_term_structure\<close> (lines 315-333).  Every exception of the
  construction gives the function that is not-a-number everywhere: \<^verbatim>\<open>va[idx]\<close> raises when
  there are fewer volatilities than days, and \<^verbatim>\<open>interp1d\<close> raises when it gets too few
  knots.  The least number of knots \<^verbatim>\<open>interp1d\<close> accepts depends on the SciPy release
  (one in current releases, two in old ones); \<open>single_ok\<close> says which.
\<close>

definition build_term_structure :: "bool \<Rightarrow> int list \<Rightarrow> real list \<Rightarrow> real \<Rightarrow> fl" where
  "build_term_structure single_ok days ivs =
     (let idx = argsort days
      in if \<exists>i \<in> set idx. length ivs \<le> i then (\<lambda>x. NaN)
         else
           let da = map (\<lambda>i. real_of_int (days ! i)) idx;
               va = map (\<lambda>i. ivs ! i) idx
           in if length da < (if single_ok then 1 else 2) then (\<lambda>x. NaN)
              else (\<lambda>dte. if dte < da ! 0 then Fin (va ! 0)
                          else if last da < dte then Fin (last va)
                          else interp1d_linear da va dte))"


section \<open>EnhancedEarningsScanner: the recommendation rule\<close>

text \<open>
  Lines 821-829 of \<^verbatim>\<open>analyze_stock\<close>: \<open>avb\<close> is \<^verbatim>\<open>od['avg_volume']\<close>, \<open>ratio\<close> is
  \<^verbatim>\<open>od['iv30_rv30']\<close> and \<open>slope\<close> is \<^verbatim>\<open>od['term_slope']\<close>.
\<close>

definition rec_rule :: "bool \<Rightarrow> fl \<Rightarrow> fl \<Rightarrow> string" where
  "rec_rule avb ratio slope =
     (let ivcheck = fl_ge ratio (Fin 1.25);
          slopecheck = fl_le slope (Fin (- 0.00406))
      in if avb \<and> ivcheck \<and> slopecheck then ''Recommended''
         else if slopecheck \<and> ((avb \<and> \<not> ivcheck) \<or> (ivcheck \<and> \<not> avb)) then ''Consider''
         else ''Avoid'')"


section \<open>DataCache\<close>

subsection \<open>Result dictionaries\<close>

text \<open>
  The values stored in a result dictionary: \<^verbatim>\<open>None\<close>, booleans, numbers and strings.
  Python's \<^verbatim>\<open>==\<close> compares numbers and booleans by numeric value (\<^verbatim>\<open>bool\<close> is a subtype
  of \<^verbatim>\<open>int\<close>, so \<^verbatim>\<open>False == 0\<close> and \<^verbatim>\<open>True == 1\<close> hold), a not-a-number differs
  from everything, and values of different kinds are different.
\<close>

datatype pyval = PNone | PBool bool | PNum fl | PStr string

fun fl_eq :: "fl \<Rightarrow> fl \<Rightarrow> bool" where
  "fl_eq (Fin a) (Fin b) = (a = b)"
| "fl_eq _ _ = False"

fun num_of :: "pyval \<Rightarrow> fl option" where
  "num_of (PBool b) = Some (Fin (if b then 1 else 0))"
| "num_of (PNum x) = Some x"
| "num_of _ = None"

definition py_eq :: "pyval \<Rightarrow> pyval \<Rightarrow> bool" where
  "py_eq a b =
     (case (num_of a, num_of b) of
        (Some x, Some y) \<Rightarrow> fl_eq x y
      | (None, None) \<Rightarrow> a = b
      | _ \<Rightarrow> False)"

text \<open>
  A dictionary keeps its items in insertion order; it is an association list, read with
  \<open>map_of\<close>.  \<open>dict_set\<close> is the assignment \<^verbatim>\<open>d[k] = v\<close>, \<open>dict_item\<close> the
  subscript \<^verbatim>\<open>d[k]\<close> that raises \<^verbatim>\<open>KeyError\<close>, \<open>dict_get\<close> the call
  \<^verbatim>\<open>d.get(k, default)\<close>.
\<close>

type_synonym dict = "(string \<times> pyval) list"

fun dict_set :: "'k \<Rightarrow> 'v \<Rightarrow> ('k \<times> 'v) list \<Rightarrow> ('k \<times> 'v) list" where
  "dict_set k v [] = [(k, v)]"
| "dict_set k v ((k', v') # d) = (if k' = k then (k, v) # d else (k', v') # dict_set k v d)"

definition dict_item :: "dict \<Rightarrow> string \<Rightarrow> error + pyval" where
  "dict_item d k = (case map_of d k of None \<Rightarrow> Inl (KeyError k) | Some v \<Rightarrow> Inr v)"

definition dict_get :: "dict \<Rightarrow> string \<Rightarrow> pyval \<Rightarrow> pyval" where
  "dict_get d k dflt = (case map_of d k of None \<Rightarrow> dflt | Some v \<Rightarrow> v)"

subsection \<open>The cache key\<close>

text \<open>
  \<^verbatim>\<open>hashlib.md5(data).hexdigest()\<close> is the MD5 message digest of RFC 1321, written in
  lower-case hexadecimal.  Strings are sequences of 8-bit characters, so \<^verbatim>\<open>str.encode()\<close>
  is the identity on the ASCII strings the program hashes.
\<close>

type_synonym u32 = "32 word"
type_synonym byte = "8 word"

definition md5_K :: "u32 list" where
  "md5_K =
    [
     0xd76aa478, 0xe8c7b756, 0x242070db, 0xc1bdceee,
     0xf57c0faf, 0x4787c62a, 0xa8304613, 0xfd469501,
     0x698098d8, 0x8b44f7af, 0xffff5bb1, 0x895cd7be,
     0x6b901122, 0xfd987193, 0xa679438e, 0x49b40821,
     0xf61e2562, 0xc040b340, 0x265e5a51, 0xe9b6c7aa,
     0xd62f105d, 0x02441453, 0xd8a1e681, 0xe7d3fbc8,
     0x21e1cde6, 0xc33707d6, 0xf4d50d87, 0x455a14ed,
     0xa9e3e905, 0xfcefa3f8, 0x676f02d9, 0x8d2a4c8a,
     0xfffa3942, 0x8771f681, 0x6d9d6122, 0xfde5380c,
     0xa4beea44, 0x4bdecfa9, 0xf6bb4b60, 0xbebfbc70,
     0x289b7ec6, 0xeaa127fa, 0xd4ef3085, 0x04881d05,
     0xd9d4d039, 0xe6db99e5, 0x1fa27cf8, 0xc4ac5665,
     0xf4292244, 0x432aff97, 0xab9423a7, 0xfc93a039,
     0x655b59c3, 0x8f0ccc92, 0xffeff47d, 0x85845dd1,
     0x6fa87e4f, 0xfe2ce6e0, 0xa3014314, 0x4e0811a1,
     0xf7537e82, 0xbd3af235, 0x2ad7d2bb, 0xeb86d391]"

definition md5_s :: "nat list" where
  "md5_s = [7, 12, 17, 22, 7, 12, 17, 22, 7, 12, 17, 22, 7, 12, 17, 22,
            5, 9, 14, 20, 5, 9, 14, 20, 5, 9, 14, 20, 5, 9, 14, 20,
            4, 11, 16, 23, 4, 11, 16, 23, 4, 11, 16, 23, 4, 11, 16, 23,
            6, 10, 15, 21, 6, 10, 15, 21, 6, 10, 15, 21, 6, 10, 15, 21]"

definition le_bytes :: "nat \<Rightarrow> 'a::len word \<Rightarrow> byte list" where
  "le_bytes k w = map (\<lambda>i. ucast (drop_bit (8 * i) w)) [0..<k]"

definition md5_pad :: "byte list \<Rightarrow> byte list" where
  "md5_pad m = m @ [0x80] @ replicate ((119 - length m mod 64) mod 64) 0 @ le_bytes 8 (of_nat (8 * length m) :: 64 word)"

fun le_words :: "byte list \<Rightarrow> u32 list" where
  "le_words (b0 # b1 # b2 # b3 # bs) =
     (ucast b0 OR push_bit 8 (ucast b1) OR push_bit 16 (ucast b2) OR push_bit 24 (ucast b3)) # le_words bs"
| "le_words _ = []"

fun chunks16 :: "u32 list \<Rightarrow> u32 list list" where
  "chunks16 [] = []"
| "chunks16 ws = take 16 ws # chunks16 (drop 16 ws)"

definition md5_step :: "u32 list \<Rightarrow> u32 \<times> u32 \<times> u32 \<times> u32 \<Rightarrow> nat \<Rightarrow> u32 \<times> u32 \<times> u32 \<times> u32" where
  "md5_step M st i =
     (case st of (A, B, C, D) \<Rightarrow>
        let F = (if i < 16 then (B AND C) OR (NOT B AND D)
                 else if i < 32 then (D AND B) OR (NOT D AND C)
                 else if i < 48 then B XOR C XOR D
                 else C XOR (B OR NOT D));
            g = (if i < 16 then i
                 else if i < 32 then (5 * i + 1) mod 16
                 else if i < 48 then (3 * i + 5) mod 16
                 else (7 * i) mod 16);
            F' = F + A + md5_K ! i + M ! g
        in (D, B + word_rotl (md5_s ! i) F', B, C))"

definition md5_chunk :: "u32 \<times> u32 \<times> u32 \<times> u32 \<Rightarrow> u32 list \<Rightarrow> u32 \<times> u32 \<times> u32 \<times> u32" where
  "md5_chunk h M =
     (case h of (a0, b0, c0, d0) \<Rightarrow>
        case foldl (md5_step M) h [0..<64] of (A, B, C, D) \<Rightarrow>
          (a0 + A, b0 + B, c0 + C, d0 + D))"

definition md5_digest :: "byte list \<Rightarrow> byte list" where
  "md5_digest m =
     (case foldl md5_chunk (0x67452301, 0xefcdab89, 0x98badcfe, 0x10325476)
             (chunks16 (le_words (md5_pad m))) of
        (a, b, c, d) \<Rightarrow> concat (map (\<lambda>w. le_bytes 4 w) [a, b, c, d]))"

definition hex_digit :: "nat \<Rightarrow> char" where
  "hex_digit n = ''0123456789abcdef'' ! n"

definition hexdigest :: "byte list \<Rightarrow> string" where
  "hexdigest bs = concat (map (\<lambda>b. [hex_digit (unat b div 16), hex_digit (unat b mod 16)]) bs)"

definition encode :: "string \<Rightarrow> byte list" where
  "encode s = map (\<lambda>c. of_nat (of_char c)) s"

definition md5_hexdigest :: "string \<Rightarrow> string" where
  "md5_hexdigest s = hexdigest (md5_digest (encode s))"

text \<open>\<^verbatim>\<open>"_".join(xs)\<close>.\<close>

fun join :: "string \<Rightarrow> string list \<Rightarrow> string" where
  "join sep [] = []"
| "join sep [x] = x"
| "join sep (x # y # ys) = x @ sep @ join sep (y # ys)"

text \<open>
  \<^verbatim>\<open>DataCache._get_cache_key\<close> (lines 586-589) and \<^verbatim>\<open>_get_cache_path\<close> (591-592).
  \<^verbatim>\<open>sorted\<close> orders strings lexicographically by character code, as \<open>sort\<close> does on
  character lists.  The cache directory is the default \<^verbatim>\<open>stock_cache\<close>.
\<close>

definition cache_key_data :: "string \<Rightarrow> string list \<Rightarrow> string" where
  "cache_key_data date tks = date @ ''_'' @ join ''_'' (sort tks)"

definition get_cache_key :: "string \<Rightarrow> string list \<Rightarrow> string" where
  "get_cache_key date tks = md5_hexdigest (cache_key_data date tks)"

definition get_cache_path :: "string \<Rightarrow> string" where
  "get_cache_path key = ''stock_cache/'' @ key @ ''.pkl''"

subsection \<open>Cache entries and files\<close>

text \<open>
  An element of \<^verbatim>\<open>missing_data\<close> is the dictionary
  \<^verbatim>\<open>{'ticker': ..., 'missing_fields': [...], 'earnings_time': ...}\<close>.
\<close>

record missing_entry =
  m_ticker :: pyval
  m_missing_fields :: "string list"
  m_earnings_time :: pyval

text \<open>
  The pickled dictionary of \<^verbatim>\<open>save_data\<close>.  A \<^verbatim>\<open>datetime\<close> is a number of seconds, and
  \<^verbatim>\<open>(now - timestamp).days\<close> is the difference divided by 86400, rounded down.
\<close>

record cache_entry =
  c_timestamp :: int
  c_date :: string
  c_tickers :: "string list"
  c_data :: "dict list"
  c_missing_data :: "missing_entry list"

text \<open>
  A file of the cache directory either unpickles to a cache entry, or is unreadable
  (\<^verbatim>\<open>pickle.load\<close> or the access to its keys raises).  The file system maps paths to files.
\<close>

datatype cache_file = Pickled cache_entry | Unreadable

type_synonym files = "string \<Rightarrow> cache_file option"

definition cache_expiry_days :: int where
  "cache_expiry_days = 7"

definition age_days :: "int \<Rightarrow> int \<Rightarrow> int" where
  "age_days now ts = (now - ts) div 86400"

text \<open>\<^verbatim>\<open>DataCache._identify_missing_data\<close> (lines 594-614).\<close>

definition missing_fields_of :: "dict \<Rightarrow> string list" where
  "missing_fields_of d =
     (if py_eq (dict_get d ''expected_move'' PNone) (PStr ''N/A'') then [''expected_move''] else [])
     @ (if dict_get d ''current_iv'' PNone = PNone then [''current_iv''] else [])
     @ (if py_eq (dict_get d ''term_structure'' PNone) (PNum (Fin 0))
           \<or> py_eq (dict_get d ''term_structure'' PNone) (PStr ''N/A'')
        then [''term_structure''] else [])"

fun identify_missing_data :: "dict list \<Rightarrow> error + missing_entry list" where
  "identify_missing_data [] = Inr []"
| "identify_missing_data (d # ds) =
     (if missing_fields_of d \<noteq> [] then
        (case dict_item d ''ticker'' of
           Inl e \<Rightarrow> Inl e
         | Inr t \<Rightarrow>
             (case identify_missing_data ds of
                Inl e \<Rightarrow> Inl e
              | Inr ms \<Rightarrow>
                  Inr (\<lparr>m_ticker = t, m_missing_fields = missing_fields_of d,
                        m_earnings_time = dict_get d ''earnings_time'' (PStr ''Unknown'')\<rparr> # ms)))
      else identify_missing_data ds)"


text \<open>
  \<^verbatim>\<open>DataCache.get_data\<close> (lines 632-646).  The result is the returned pair and the file
  system after the call.  The handler of the \<^verbatim>\<open>try\<close> block logs and returns; it removes
  nothing.
\<close>

definition get_data ::
  "int \<Rightarrow> files \<Rightarrow> string \<Rightarrow> string list \<Rightarrow> (dict list option \<times> missing_entry list) \<times> files" where
  "get_data now fs date tks =
     (let cp = get_cache_path (get_cache_key date tks)
      in case fs cp of
           None \<Rightarrow> ((None, []), fs)
         | Some Unreadable \<Rightarrow> ((None, []), fs)
         | Some (Pickled c) \<Rightarrow>
             if cache_expiry_days \<le> age_days now (c_timestamp c)
             then ((None, []), fs(cp := None))
             else ((Some (c_data c), c_missing_data c), fs))"

text \<open>
  \<^verbatim>\<open>DataCache.update_missing_data\<close> (lines 648-664).  The test of line 657 is
  \<open>missing_sentinel\<close>; the inner loop over \<^verbatim>\<open>new_data.items()\<close> is \<open>backfill_entry\<close>;
  the outer loop over \<^verbatim>\<open>c['data']\<close> is \<open>backfill_entries\<close>, which raises
  \<^verbatim>\<open>KeyError\<close> when an entry or the update has no ticker.  An exception raised before
  \<^verbatim>\<open>pickle.dump\<close> is caught and leaves the file as it was; the log line after the dump
  changes nothing.
\<close>

definition missing_sentinel :: "pyval \<Rightarrow> bool" where
  "missing_sentinel v = (py_eq v (PStr ''N/A'') \<or> v = PNone \<or> py_eq v (PNum (Fin 0)))"

definition backfill_item :: "string \<times> pyval \<Rightarrow> dict \<Rightarrow> dict" where
  "backfill_item kv entry =
     (case map_of entry (fst kv) of
        None \<Rightarrow> entry
      | Some old \<Rightarrow> if missing_sentinel old then dict_set (fst kv) (snd kv) entry else entry)"

definition backfill_entry :: "dict \<Rightarrow> dict \<Rightarrow> dict" where
  "backfill_entry new_data entry = fold backfill_item new_data entry"

fun backfill_entries :: "dict \<Rightarrow> dict list \<Rightarrow> error + dict list" where
  "backfill_entries new_data [] = Inr []"
| "backfill_entries new_data (entry # es) =
     (case dict_item entry ''ticker'' of
        Inl e \<Rightarrow> Inl e
      | Inr t \<Rightarrow>
          (case dict_item new_data ''ticker'' of
             Inl e \<Rightarrow> Inl e
           | Inr t' \<Rightarrow>
               (case backfill_entries new_data es of
                  Inl e \<Rightarrow> Inl e
                | Inr es' \<Rightarrow>
                    Inr ((if py_eq t t' then backfill_entry new_data entry else entry) # es'))))"

definition update_missing_data :: "files \<Rightarrow> string \<Rightarrow> string list \<Rightarrow> dict \<Rightarrow> files" where
  "update_missing_data fs date tks new_data =
     (let cp = get_cache_path (get_cache_key date tks)
      in case fs cp of
           Some (Pickled c) \<Rightarrow>
             (case backfill_entries new_data (c_data c) of
                Inl e \<Rightarrow> fs
              | Inr dat \<Rightarrow>
                  (case identify_missing_data dat of
                     Inl e \<Rightarrow> fs
                   | Inr missing \<Rightarrow>
                       fs(cp \<mapsto> Pickled (c\<lparr>c_data := dat, c_missing_data := missing\<rparr>))))
         | _ \<Rightarrow> fs)"

text \<open>
  \<^verbatim>\<open>DataCache.clear_expired\<close> (lines 666-677), file by file: a \<^verbatim>\<open>.pkl\<close> file directly
  in the cache directory is removed when it is expired and also when it cannot be read.
\<close>

definition is_cache_file :: "string \<Rightarrow> bool" where
  "is_cache_file p =
     (let fn = drop 12 p
      in take 12 p = ''stock_cache/'' \<and> CHR ''/'' \<notin> set fn
         \<and> 4 \<le> length fn \<and> drop (length fn - 4) fn = ''.pkl'')"

definition clear_expired :: "int \<Rightarrow> files \<Rightarrow> files" where
  "clear_expired now fs =
     (\<lambda>p. case fs p of
             None \<Rightarrow> None
           | Some f \<Rightarrow>
               if is_cache_file p then
                 (case f of
                    Unreadable \<Rightarrow> None
                  | Pickled c \<Rightarrow>
                      if cache_expiry_days \<le> age_days now (c_timestamp c) then None else Some f)
               else Some f)"


section \<open>The network and the session\<close>

text \<open>
  Price bars, option quotes and option chains, as the program reads them from the data
  frames of the market-data library.  Their numbers are real; a missing value inside a
  frame is not modelled.
\<close>

record bar =
  b_open :: real
  b_high :: real
  b_low :: real
  b_close :: real
  b_volume :: real

record quote =
  strike :: real
  bid :: real
  ask :: real
  impliedVolatility :: real

record chain =
  calls :: "quote list"
  puts :: "quote list"

text \<open>
  Everything outside the program is a parameter.  Each network request has an answer that
  depends on the request and on the number of requests made before it, so that a retry
  may get a different answer; the answer \<open>None\<close> is a request that raises.  The fields
  are: the current day and time (\<^verbatim>\<open>datetime.today()\<close>, \<^verbatim>\<open>datetime.now()\<close>, constant
  during a run); \<^verbatim>\<open>Ticker.options\<close>; \<^verbatim>\<open>Ticker.option_chain(e)\<close>;
  \<^verbatim>\<open>Ticker.history(period)\<close>; \<^verbatim>\<open>Ticker.info.get('marketCap', 0)\<close>; the frames of
  \<^verbatim>\<open>yf.download\<close>, one per ticker, \<open>None\<close> where the frame has no such ticker; the rows
  (ticker, timing) parsed from the earnings calendar; the draws of \<^verbatim>\<open>random.choice\<close>;
  \<^verbatim>\<open>yang_zhang_volatility\<close> with its fallback, a numerical estimator that catches its own
  exceptions; the least number of knots of the interpolation library; and the formatting
  \<^verbatim>\<open>f"{round(x,2)}%"\<close>.
\<close>

record env =
  e_today :: date
  e_now :: int
  e_options :: "nat \<Rightarrow> string \<Rightarrow> date list option"
  e_option_chain :: "nat \<Rightarrow> string \<Rightarrow> date \<Rightarrow> chain option"
  e_history :: "nat \<Rightarrow> string \<Rightarrow> string \<Rightarrow> bar list option"
  e_market_cap :: "nat \<Rightarrow> string \<Rightarrow> real option"
  e_download :: "nat \<Rightarrow> string list \<Rightarrow> (string \<Rightarrow> bar list option) option"
  e_calendar :: "nat \<Rightarrow> string \<Rightarrow> (string \<times> string) list option"
  e_random :: "nat \<Rightarrow> nat"
  e_yang_zhang :: "bar list \<Rightarrow> fl"
  e_single_ok :: bool
  e_percent :: "real \<Rightarrow> string"

text \<open>
  The mutable state of a run: the number of network requests made, the number of calls of
  \<^verbatim>\<open>rotate_session\<close>, the number of random draws, the proxy manager, the proxy the
  current session is bound to, the \<^verbatim>\<open>earnings_times\<close> dictionary of the calendar
  fetcher, and the files of the cache.
\<close>

record world =
  w_requests :: nat
  w_rotations :: nat
  w_draws :: nat
  w_proxy_manager :: ProxyManager
  w_session_proxy :: "proxy option"
  w_earnings_times :: "(string \<times> string) list"
  w_files :: files

text \<open>A network request: it consumes one answer and may raise.\<close>

definition request :: "(nat \<Rightarrow> 'a option) \<Rightarrow> world \<Rightarrow> (error + 'a) \<times> world" where
  "request answer w =
     ((case answer (w_requests w) of None \<Rightarrow> Inl NetworkError | Some x \<Rightarrow> Inr x),
      w\<lparr>w_requests := Suc (w_requests w)\<rparr>)"

text \<open>
  \<^verbatim>\<open>SessionManager._create_session\<close> (lines 208-213) and \<^verbatim>\<open>rotate_session\<close> (lines
  215-219).  The new session is bound to the proxy that \<^verbatim>\<open>get_proxy\<close> draws.
\<close>

definition create_session :: "env \<Rightarrow> world \<Rightarrow> world" where
  "create_session env w =
     (if proxy_enabled (w_proxy_manager w) then
        (case get_proxy (e_random env (w_draws w)) (w_proxy_manager w) of
           (p, pm) \<Rightarrow> w\<lparr>w_draws := Suc (w_draws w), w_proxy_manager := pm, w_session_proxy := p\<rparr>)
      else w\<lparr>w_session_proxy := None\<rparr>)"

definition rotate_session :: "env \<Rightarrow> world \<Rightarrow> world" where
  "rotate_session env w =
     (let w1 = w\<lparr>w_rotations := Suc (w_rotations w)\<rparr>
      in if proxy_enabled (w_proxy_manager w1) then
           (case rotate_proxy (e_random env (w_draws w1)) (w_proxy_manager w1) of
              (p, pm) \<Rightarrow>
                let w2 = w1\<lparr>w_draws := Suc (w_draws w1), w_proxy_manager := pm\<rparr>
                in if p \<noteq> None then create_session env w2 else w2)
         else w1)"

text \<open>The text of an exception, as \<^verbatim>\<open>f"{e}"\<close> prints it.\<close>

fun error_message :: "error \<Rightarrow> string" where
  "error_message (ValueError m) = m"
| "error_message IndexError = ''single positional indexer is out-of-bounds''"
| "error_message (KeyError k) = [CHR 0x27] @ k @ [CHR 0x27]"
| "error_message ZeroDivisionError = ''float division by zero''"
| "error_message (TypeError m) = m"
| "error_message NetworkError = ''network error''"


section \<open>OptionsAnalyzer: compute_recommendation\<close>

text \<open>
  \<^verbatim>\<open>str.strip()\<close> removes the white space at both ends and \<^verbatim>\<open>str.upper()\<close> maps the
  letters to upper case.  Characters are 8-bit; the white-space characters are those of
  \<^verbatim>\<open>str.isspace\<close> below code 256, and only the ASCII letters change case.
\<close>

definition py_isspace :: "char \<Rightarrow> bool" where
  "py_isspace c = ((of_char c :: nat) \<in> {9, 10, 11, 12, 13, 28, 29, 30, 31, 32, 133, 160})"

definition strip :: "string \<Rightarrow> string" where
  "strip s = rev (dropWhile py_isspace (rev (dropWhile py_isspace s)))"

definition upper :: "string \<Rightarrow> string" where
  "upper s =
     map (\<lambda>c. if 97 \<le> (of_char c :: nat) \<and> (of_char c :: nat) \<le> 122
              then char_of ((of_char c :: nat) - 32) else c) s"

text \<open>
  \<^verbatim>\<open>get_current_price\<close> (lines 335-347).  The handler tries again while
  \<^verbatim>\<open>attempt < 2\<close> and raises at the last attempt, so the loop over \<^verbatim>\<open>range(3)\<close> starts
  at attempt 0 and is never exhausted.
\<close>

function get_current_price :: "env \<Rightarrow> string \<Rightarrow> nat \<Rightarrow> world \<Rightarrow> (error + real) \<times> world" where
  "get_current_price env s attempt w =
     (case request (\<lambda>n. e_history env n s ''1d'') w of
        (r, w1) \<Rightarrow>
          (case (case r of
                   Inl e \<Rightarrow> Inl e
                 | Inr td \<Rightarrow> if td = [] then Inl (ValueError ''No price data for 1d.'')
                             else Inr (b_close (last td))) of
             Inr price \<Rightarrow> (Inr price, w1)
           | Inl e \<Rightarrow>
               if attempt < 2 then get_current_price env s (Suc attempt) (rotate_session env w1)
               else (Inl (ValueError (''Cannot get price: '' @ error_message e)), w1)))"
  by pat_completeness auto
termination
  by (relation "measure (\<lambda>(env, s, attempt, w). 2 - attempt)") auto

text \<open>
  The loop of lines 367-374: each chain is requested once, and once more after a rotation
  when the first request raises.
\<close>

fun fetch_chains ::
  "env \<Rightarrow> string \<Rightarrow> date list \<Rightarrow> (date \<times> chain) list \<Rightarrow> world
     \<Rightarrow> (error + (date \<times> chain) list) \<times> world" where
  "fetch_chains env s [] oc w = (Inr oc, w)"
| "fetch_chains env s (e # es) oc w =
     (case request (\<lambda>n. e_option_chain env n s e) w of
        (Inr ch, w1) \<Rightarrow> fetch_chains env s es (dict_set e ch oc) w1
      | (Inl err, w1) \<Rightarrow>
          (case request (\<lambda>n. e_option_chain env n s e) (rotate_session env w1) of
             (Inr ch, w2) \<Rightarrow> fetch_chains env s es (dict_set e ch oc) w2
           | (Inl err2, w2) \<Rightarrow> (Inl err2, w2)))"

text \<open>
  The loop of lines 380-401 over the chains.  \<^verbatim>\<open>idxmin\<close> is the first quote whose strike
  is nearest to the price.  The state is \<^verbatim>\<open>atm_ivs\<close>, \<^verbatim>\<open>stprice\<close>, \<^verbatim>\<open>fi_iv\<close> and
  \<^verbatim>\<open>i\<close>.  A number is true in a condition when it is not zero.
\<close>

definition atm_step ::
  "real \<Rightarrow> (date \<times> real) list \<times> real option \<times> real option \<times> nat \<Rightarrow> date \<times> chain
     \<Rightarrow> (date \<times> real) list \<times> real option \<times> real option \<times> nat" where
  "atm_step up st ec =
     (case st of (atm_ivs, stprice, fi_iv, i) \<Rightarrow>
        if calls (snd ec) = [] \<or> puts (snd ec) = [] then st
        else
          let c = arg_min_list (\<lambda>q. \<bar>strike q - up\<bar>) (calls (snd ec));
              p = arg_min_list (\<lambda>q. \<bar>strike q - up\<bar>) (puts (snd ec));
              av = (impliedVolatility c + impliedVolatility p) / 2;
              atm_ivs' = dict_set (fst ec) av atm_ivs
          in if i = 0 then
               (atm_ivs',
                (if bid c \<noteq> 0 \<and> ask c \<noteq> 0 \<and> 0 < bid c \<and> 0 < ask c
                    \<and> bid p \<noteq> 0 \<and> ask p \<noteq> 0 \<and> 0 < bid p \<and> 0 < ask p
                 then Some ((bid c + ask c) / 2 + (bid p + ask p) / 2) else stprice),
                Some av, i + 1)
             else (atm_ivs', stprice, fi_iv, i + 1))"

text \<open>
  Lines 415-420 and 424-427.  Python's division raises \<^verbatim>\<open>ZeroDivisionError\<close> on a zero
  divisor; \<open>fl_div\<close> keeps that case, which the two guards exclude.
\<close>

fun fl_div :: "fl \<Rightarrow> fl \<Rightarrow> error + fl" where
  "fl_div (Fin a) (Fin b) = (if b = 0 then Inl ZeroDivisionError else Inr (Fin (a / b)))"
| "fl_div _ _ = Inr NaN"

definition term_slope :: "(real \<Rightarrow> fl) \<Rightarrow> int \<Rightarrow> error + fl" where
  "term_slope spline d0 =
     (if d0 = 45 then Inr (Fin 0)
      else
        let dden = (if 45 - d0 \<noteq> 0 then 45 - d0 else 1)
        in fl_div (fl_sub (spline 45) (spline (real_of_int d0))) (Fin (real_of_int dden)))"

definition iv30_rv30 :: "fl \<Rightarrow> fl \<Rightarrow> error + fl" where
  "iv30_rv30 iv30 hv = (if fl_eq hv (Fin 0) then Inr (Fin 9999) else fl_div iv30 hv)"

text \<open>
  Line 428: the mean of the last 30 volumes; with fewer than 30 bars the rolling mean has
  no defined value and \<^verbatim>\<open>iloc[-1]\<close> raises.  Lines 431-437: the 14-day average of the
  true range, not-a-number with fewer than 14 bars.
\<close>

definition avg_volume_30 :: "bar list \<Rightarrow> error + real" where
  "avg_volume_30 h3 =
     (if h3 = [] then Inr 0
      else if length h3 < 30 then Inl IndexError
      else Inr (sum_list (map b_volume (drop (length h3 - 30) h3)) / 30))"

fun true_ranges :: "real option \<Rightarrow> bar list \<Rightarrow> real list" where
  "true_ranges pc [] = []"
| "true_ranges None (b # bs) = (b_high b - b_low b) # true_ranges (Some (b_close b)) bs"
| "true_ranges (Some c) (b # bs) =
     max (b_high b - b_low b) (max \<bar>b_high b - c\<bar> \<bar>b_low b - c\<bar>)
     # true_ranges (Some (b_close b)) bs"

definition atr14 :: "bar list \<Rightarrow> fl" where
  "atr14 h3 =
     (if h3 = [] then Fin 0
      else if length h3 < 14 then NaN
      else Fin (sum_list (drop (length h3 - 14) (true_ranges None h3)) / 14))"

text \<open>The dictionary that \<^verbatim>\<open>compute_recommendation\<close> returns when it has no error.\<close>

record recommendation =
  r_avg_volume :: bool
  r_avg_volume_value :: real
  r_iv30_rv30 :: fl
  r_term_slope :: fl
  r_term_structure :: fl
  r_expected_move :: string
  r_underlying_price :: real
  r_historical_volatility :: fl
  r_current_iv :: "real option"
  r_atr14 :: fl
  r_market_cap :: real
  r_volume :: real

text \<open>
  The body of the \<^verbatim>\<open>try\<close> block of \<^verbatim>\<open>compute_recommendation\<close> (lines 358-458).  Its
  result is a raised exception (\<open>Inl\<close>) or a returned dictionary; the returned
  dictionary is \<^verbatim>\<open>{"error": msg}\<close> (\<open>Inl msg\<close>) or a recommendation.  The two
  readings of \<^verbatim>\<open>t.options\<close> are one request.  \<open>analyze_chains\<close> is the part of the
  body from line 380 on.
\<close>

definition analyze_chains ::
  "env \<Rightarrow> string \<Rightarrow> real \<Rightarrow> real \<Rightarrow> (date \<times> chain) list \<Rightarrow> world
     \<Rightarrow> (error + string + recommendation) \<times> world" where
  "analyze_chains env s up tv oc w =
     (case foldl (atm_step up) ([], None, None, 0) oc of
        (atm_ivs, stprice, fi_iv, i) \<Rightarrow>
          if atm_ivs = [] then (Inr (Inl ''No ATM IV found.''), w)
          else
            let ds = map (\<lambda>x. fst x - e_today env) atm_ivs;
                vs = map snd atm_ivs;
                spline = build_term_structure (e_single_ok env) ds vs;
                iv30 = spline 30;
                d0 = Min (set ds)
            in case term_slope spline d0 of
                 Inl e \<Rightarrow> (Inl e, w)
               | Inr slope \<Rightarrow>
                   (case request (\<lambda>n. e_history env n s ''3mo'') w of
                      (Inl e, w1) \<Rightarrow> (Inl e, w1)
                    | (Inr h3, w1) \<Rightarrow>
                        let hv = e_yang_zhang env h3
                        in case iv30_rv30 iv30 hv of
                             Inl e \<Rightarrow> (Inl e, w1)
                           | Inr ratio \<Rightarrow>
                               (case avg_volume_30 h3 of
                                  Inl e \<Rightarrow> (Inl e, w1)
                                | Inr avgv \<Rightarrow>
                                    (case request (\<lambda>n. e_market_cap env n s) w1 of
                                       (Inl e, w2) \<Rightarrow> (Inl e, w2)
                                     | (Inr mc, w2) \<Rightarrow>
                                         (Inr (Inr
                                            \<lparr>r_avg_volume = (1500000 \<le> avgv),
                                             r_avg_volume_value = avgv,
                                             r_iv30_rv30 = ratio,
                                             r_term_slope = slope,
                                             r_term_structure = iv30,
                                             r_expected_move =
                                               (case stprice of
                                                  None \<Rightarrow> ''N/A''
                                                | Some sp \<Rightarrow>
                                                    if sp \<noteq> 0 \<and> up \<noteq> 0
                                                    then e_percent env (sp / up * 100)
                                                    else ''N/A''),
                                             r_underlying_price = up,
                                             r_historical_volatility = hv,
                                             r_current_iv = fi_iv,
                                             r_atr14 = atr14 h3,
                                             r_market_cap = mc,
                                             r_volume = tv\<rparr>), w2)))))"

definition try_recommendation ::
  "env \<Rightarrow> string \<Rightarrow> world \<Rightarrow> (error + string + recommendation) \<times> world" where
  "try_recommendation env symbol w =
     (let s = upper (strip symbol)
      in if s = [] then (Inr (Inl ''No symbol provided.''), w)
         else
           case request (\<lambda>n. e_options env n s) w of
             (Inl e, w1) \<Rightarrow> (Inl e, w1)
           | (Inr options, w1) \<Rightarrow>
               if options = [] then (Inr (Inl (''No options for '' @ s @ ''.'')), w1)
               else
                 case filter_dates (e_today env) options of
                   Inl e \<Rightarrow> (Inl e, w1)
                 | Inr exps \<Rightarrow>
                     (case fetch_chains env s exps [] w1 of
                        (Inl e, w2) \<Rightarrow> (Inl e, w2)
                      | (Inr oc, w2) \<Rightarrow>
                          (case get_current_price env s 0 w2 of
                             (Inl e, w3) \<Rightarrow> (Inl e, w3)
                           | (Inr up, w3) \<Rightarrow>
                               (case request (\<lambda>n. e_history env n s ''1d'') w3 of
                                  (Inl e, w4) \<Rightarrow> (Inl e, w4)
                                | (Inr hist1, w4) \<Rightarrow>
                                    analyze_chains env s up
                                      (if hist1 \<noteq> [] then b_volume (last hist1) else 0) oc w4))))"

text \<open>
  \<^verbatim>\<open>compute_recommendation\<close> (lines 349-466): the loop over the attempts.  An exception
  of the body is followed by a rotation and the next attempt while \<^verbatim>\<open>attempt < 2\<close>, and
  by the error dictionary at the last attempt.
\<close>

function compute_recommendation ::
  "env \<Rightarrow> string \<Rightarrow> nat \<Rightarrow> world \<Rightarrow> (string + recommendation) \<times> world" where
  "compute_recommendation env symbol attempt w =
     (case try_recommendation env symbol w of
        (Inr result, w1) \<Rightarrow> (result, w1)
      | (Inl e, w1) \<Rightarrow>
          if attempt < 2 then compute_recommendation env symbol (Suc attempt) (rotate_session env w1)
          else (Inl (''Err: '' @ error_message e), w1))"
  by pat_completeness auto
termination
  by (relation "measure (\<lambda>(env, symbol, attempt, w). 2 - attempt)") auto


section \<open>EnhancedEarningsScanner\<close>





















section \<open>Example runs\<close>

text \<open>
  A state with no proxies, no requests made and an empty cache directory, and three
  environments for the concrete runs used below.  In \<open>offline_env\<close> the calendar lists the
  symbol \<^verbatim>\<open>AAA\<close> and every other request raises.  In \<open>no_options_env\<close> the calendar
  lists \<^verbatim>\<open>AAA\<close>, every history has one bar and no option expirations are listed.  In
  \<open>flat_env\<close> one expiration 45 days out is listed, with one call and one put, the
  history has 30 equal bars and the realized volatility is zero.
\<close>

definition empty_world :: world where
  "empty_world =
     \<lparr>w_requests = 0, w_rotations = 0, w_draws = 0,
      w_proxy_manager = \<lparr>proxies = [], current_proxy = None, proxy_enabled = False\<rparr>,
      w_session_proxy = None, w_earnings_times = [], w_files = Map.empty\<rparr>"

definition offline_env :: env where
  "offline_env =
     \<lparr>e_today = 0, e_now = 0,
      e_options = (\<lambda>n s. None),
      e_option_chain = (\<lambda>n s e. None),
      e_history = (\<lambda>n s p. None),
      e_market_cap = (\<lambda>n s. None),
      e_download = (\<lambda>n ts. None),
      e_calendar = (\<lambda>n d. Some [(''AAA'', ''Pre Market'')]),
      e_random = (\<lambda>n. 0),
      e_yang_zhang = (\<lambda>bars. NaN),
      e_single_ok = True,
      e_percent = (\<lambda>x. ''?%'')\<rparr>"

definition one_bar :: bar where
  "one_bar = \<lparr>b_open = 10, b_high = 10, b_low = 10, b_close = 10, b_volume = 2000000\<rparr>"


definition one_quote :: quote where
  "one_quote = \<lparr>strike = 10, bid = 1, ask = 1, impliedVolatility = 0.4\<rparr>"

definition flat_env :: env where
  "flat_env =
     \<lparr>e_today = 0, e_now = 0,
      e_options = (\<lambda>n s. Some [45]),
      e_option_chain = (\<lambda>n s e. Some \<lparr>calls = [one_quote], puts = [one_quote]\<rparr>),
      e_history = (\<lambda>n s p. if p = ''1d'' then Some [one_bar] else Some (replicate 30 one_bar)),
      e_market_cap = (\<lambda>n s. Some 0),
      e_download = (\<lambda>n ts. None),
      e_calendar = (\<lambda>n d. Some [(''AAA'', ''Pre Market'')]),
      e_random = (\<lambda>n. 0),
      e_yang_zhang = (\<lambda>bars. Fin 0),
      e_single_ok = True,
      e_percent = (\<lambda>x. ''?%'')\<rparr>"


section \<open>Properties\<close>

subsection \<open>Proxy rotation\<close>

lemma random_choice_mem: "xs \<noteq> [] \<Longrightarrow> \<exists>x \<in> set xs. random_choice r xs = Inr x"
  by (simp add: random_choice_def)

text \<open>
  Claim C9.  \<open>rotate_proxy\<close> returns no proxy and leaves the manager unchanged when
  proxying is disabled, when the pool has at most one entry, or when every pool entry is the
  current proxy.  In every other case it returns a pool entry different from the current
  proxy and records it as the current one.  In particular, when proxying is enabled and the
  pool holds two distinct entries, the returned proxy is never the one that was current.
\<close>

theorem rotate_proxy_cases:
  "(\<not> proxy_enabled pm \<or> length (proxies pm) \<le> 1
      \<or> (\<forall>p \<in> set (proxies pm). current_proxy pm = Some p)
     \<longrightarrow> rotate_proxy r pm = (None, pm))
   \<and> (proxy_enabled pm \<and> 1 < length (proxies pm)
        \<and> (\<exists>p \<in> set (proxies pm). current_proxy pm \<noteq> Some p)
     \<longrightarrow> (\<exists>p \<in> set (proxies pm). current_proxy pm \<noteq> Some p
            \<and> rotate_proxy r pm = (Some p, pm\<lparr>current_proxy := Some p\<rparr>)))
   \<and> (proxy_enabled pm \<and> a \<in> set (proxies pm) \<and> b \<in> set (proxies pm) \<and> a \<noteq> b
     \<longrightarrow> fst (rotate_proxy r pm) \<noteq> None \<and> fst (rotate_proxy r pm) \<noteq> current_proxy pm)"
proof (intro conjI impI)
  assume "\<not> proxy_enabled pm \<or> length (proxies pm) \<le> 1
      \<or> (\<forall>p \<in> set (proxies pm). current_proxy pm = Some p)"
  moreover have "filter (\<lambda>p. Some p \<noteq> current_proxy pm) (proxies pm) = []"
    if "\<forall>p \<in> set (proxies pm). current_proxy pm = Some p"
    using that by (auto simp: filter_empty_conv)
  ultimately show "rotate_proxy r pm = (None, pm)"
    by (auto simp: rotate_proxy_def Let_def)
next
  let ?av = "filter (\<lambda>p. Some p \<noteq> current_proxy pm) (proxies pm)"
  assume h: "proxy_enabled pm \<and> 1 < length (proxies pm)
        \<and> (\<exists>p \<in> set (proxies pm). current_proxy pm \<noteq> Some p)"
  then have ne: "?av \<noteq> []"
    by (simp add: filter_empty_conv) metis
  then obtain p where p: "p \<in> set ?av" "random_choice r ?av = Inr p"
    using random_choice_mem by blast
  with h ne have "rotate_proxy r pm = (Some p, pm\<lparr>current_proxy := Some p\<rparr>)"
    by (simp add: rotate_proxy_def Let_def)
  with p show "\<exists>p \<in> set (proxies pm). current_proxy pm \<noteq> Some p
            \<and> rotate_proxy r pm = (Some p, pm\<lparr>current_proxy := Some p\<rparr>)"
    by auto
next
  let ?av = "filter (\<lambda>p. Some p \<noteq> current_proxy pm) (proxies pm)"
  assume h: "proxy_enabled pm \<and> a \<in> set (proxies pm) \<and> b \<in> set (proxies pm) \<and> a \<noteq> b"
  then have "Some a \<noteq> current_proxy pm \<or> Some b \<noteq> current_proxy pm"
    by (metis option.inject)
  with h have "\<exists>x \<in> set (proxies pm). Some x \<noteq> current_proxy pm"
    by blast
  then have ne: "?av \<noteq> []"
    by (simp add: filter_empty_conv)
  then obtain p where p: "p \<in> set ?av" "random_choice r ?av = Inr p"
    using random_choice_mem by blast
  have "length (proxies pm) \<noteq> 0 \<and> length (proxies pm) \<noteq> 1"
    using h by (cases "proxies pm") (auto simp: length_Suc_conv)
  then have len: "1 < length (proxies pm)"
    by linarith
  with h ne p have "rotate_proxy r pm = (Some p, pm\<lparr>current_proxy := Some p\<rparr>)"
    by (simp add: rotate_proxy_def Let_def)
  with p show "fst (rotate_proxy r pm) \<noteq> None" "fst (rotate_proxy r pm) \<noteq> current_proxy pm"
    by auto
qed

theorem rotate_proxy_cases_witness:
  "rotate_proxy 7 \<lparr>proxies = [\<lparr>http = ''a'', https = ''a''\<rparr>], current_proxy = None,
                    proxy_enabled = True\<rparr>
     = (None, \<lparr>proxies = [\<lparr>http = ''a'', https = ''a''\<rparr>], current_proxy = None,
               proxy_enabled = True\<rparr>)
   \<and> (\<exists>p \<in> {\<lparr>http = ''a'', https = ''a''\<rparr>, \<lparr>http = ''b'', https = ''b''\<rparr>}.
         Some \<lparr>http = ''a'', https = ''a''\<rparr> \<noteq> Some p
         \<and> rotate_proxy 7
             \<lparr>proxies = [\<lparr>http = ''a'', https = ''a''\<rparr>, \<lparr>http = ''b'', https = ''b''\<rparr>],
              current_proxy = Some \<lparr>http = ''a'', https = ''a''\<rparr>, proxy_enabled = True\<rparr>
           = (Some p,
              \<lparr>proxies = [\<lparr>http = ''a'', https = ''a''\<rparr>, \<lparr>http = ''b'', https = ''b''\<rparr>],
               current_proxy = Some p, proxy_enabled = True\<rparr>))
   \<and> fst (rotate_proxy 7
             \<lparr>proxies = [\<lparr>http = ''a'', https = ''a''\<rparr>, \<lparr>http = ''b'', https = ''b''\<rparr>],
              current_proxy = Some \<lparr>http = ''a'', https = ''a''\<rparr>, proxy_enabled = True\<rparr>)
       \<noteq> Some \<lparr>http = ''a'', https = ''a''\<rparr>"
  using rotate_proxy_cases [where r = 7 and pm = "\<lparr>proxies = [\<lparr>http = ''a'', https = ''a''\<rparr>],
                                 current_proxy = None, proxy_enabled = True\<rparr>"]
        rotate_proxy_cases [where r = 7 and pm =
          "\<lparr>proxies = [\<lparr>http = ''a'', https = ''a''\<rparr>, \<lparr>http = ''b'', https = ''b''\<rparr>],
            current_proxy = Some \<lparr>http = ''a'', https = ''a''\<rparr>, proxy_enabled = True\<rparr>"
          and a = "\<lparr>http = ''a'', https = ''a''\<rparr>" and b = "\<lparr>http = ''b'', https = ''b''\<rparr>"]
  by simp


subsection \<open>Expiration dates\<close>

lemma first_from_takeWhile:
  "first_from c xs i =
     (if \<exists>d \<in> set xs. c \<le> d then Some (i + length (takeWhile (\<lambda>d. d < c) xs)) else None)"
proof (induction xs arbitrary: i)
  case Nil
  show ?case by simp
next
  case (Cons x xs)
  show ?case
  proof (cases "c \<le> x")
    case True
    then show ?thesis by simp
  next
    case False
    then have "first_from c (x # xs) i = first_from c xs (Suc i)"
      by simp
    with False Cons [of "Suc i"] show ?thesis
      by simp
  qed
qed

lemma take_Suc_takeWhile:
  "take (length (takeWhile P xs) + 1) xs = takeWhile P xs @ take 1 (dropWhile P xs)"
  by (induction xs) auto

text \<open>
  Claim C6.  Relative to the current day, \<open>filter_dates\<close> returns the sorted dates up to
  and including the first one that is at least 45 days out, without its first element when
  that element is today; it raises the "no date 45+ days out" error exactly when no listed
  date is at least 45 days out.
\<close>

theorem filter_dates_prefix:
  "filter_dates today dates =
     (if \<exists>d \<in> set dates. today + 45 \<le> d then
        Inr (if hd (prefix_to_horizon (today + 45) dates) = today
             then tl (prefix_to_horizon (today + 45) dates)
             else prefix_to_horizon (today + 45) dates)
      else Inl (ValueError ''No date 45+ days out found.''))"
proof (cases "\<exists>d \<in> set dates. today + 45 \<le> d")
  case True
  then have ex: "\<exists>d \<in> set (sort dates). today + 45 \<le> d"
    by simp
  have idx: "first_from (today + 45) (sort dates) 0
               = Some (length (takeWhile (\<lambda>d. d < today + 45) (sort dates)))"
    using ex by (simp add: first_from_takeWhile)
  have arr: "take (length (takeWhile (\<lambda>d. d < today + 45) (sort dates)) + 1) (sort dates)
               = prefix_to_horizon (today + 45) dates"
    by (simp only: take_Suc_takeWhile prefix_to_horizon_def)
  have "dropWhile (\<lambda>d. d < today + 45) (sort dates) \<noteq> []"
    using ex by (auto simp: not_less)
  then have "prefix_to_horizon (today + 45) dates \<noteq> []"
    by (cases "dropWhile (\<lambda>d. d < today + 45) (sort dates)") (simp_all add: prefix_to_horizon_def)
  with True idx arr show ?thesis
    by (simp add: filter_dates_def del: take_Suc_Cons)
next
  case False
  then have "first_from (today + 45) (sort dates) 0 = None"
    by (simp add: first_from_takeWhile)
  with False show ?thesis
    by (simp add: filter_dates_def)
qed

theorem filter_dates_prefix_witness:
  "(\<exists>d \<in> set [160, 100, 120, 150, 145 :: int]. 100 + 45 \<le> d)
   \<and> filter_dates 100 [160, 100, 120, 150, 145] = Inr [120, 145]
   \<and> \<not> (\<exists>d \<in> set [100, 120 :: int]. 100 + 45 \<le> d)
   \<and> filter_dates 100 [100, 120] = Inl (ValueError ''No date 45+ days out found.'')"
  using filter_dates_prefix [of 100 "[160, 100, 120, 150, 145]"]
        filter_dates_prefix [of 100 "[100, 120]"]
  by (simp add: prefix_to_horizon_def)


subsection \<open>The recommendation rule\<close>

text \<open>
  Claim C1.  For every \<open>avg_volume\<close> flag, ratio and slope: the rule gives Recommended
  exactly when the flag holds, the ratio is at least 1.25 and the slope is at most -0.00406;
  Consider exactly when the slope condition holds and exactly one of the flag and the ratio
  condition holds; Avoid in every other case.  The four sample points of the specification
  evaluate as it says.
\<close>

theorem rec_rule_cases:
  "(rec_rule avb ratio slope = ''Recommended'')
     = (avb \<and> fl_ge ratio (Fin 1.25) \<and> fl_le slope (Fin (- 0.00406)))
   \<and> (rec_rule avb ratio slope = ''Consider'')
     = (fl_le slope (Fin (- 0.00406)) \<and> (avb \<noteq> fl_ge ratio (Fin 1.25)))
   \<and> (rec_rule avb ratio slope = ''Avoid'')
     = (\<not> (avb \<and> fl_ge ratio (Fin 1.25) \<and> fl_le slope (Fin (- 0.00406)))
        \<and> \<not> (fl_le slope (Fin (- 0.00406)) \<and> (avb \<noteq> fl_ge ratio (Fin 1.25))))
   \<and> rec_rule True (Fin 1.30) (Fin (- 0.005)) = ''Recommended''
   \<and> rec_rule False (Fin 1.30) (Fin (- 0.005)) = ''Consider''
   \<and> rec_rule True (Fin 1.30) (Fin (- 0.002)) = ''Avoid''
   \<and> rec_rule False (Fin 0.5) (Fin 0.01) = ''Avoid''"
  by (auto simp: rec_rule_def Let_def)


subsection \<open>The cache key\<close>

lemma sort_cong_mset: "mset (xs :: string list) = mset ys \<Longrightarrow> sort xs = sort ys"
  by (rule properties_for_sort) simp_all

text \<open>
  Claim C7, as the code has it.  The key is the MD5 digest of the date, an underscore and the
  sorted symbols joined by underscores, so two symbol lists that are permutations of each
  other (the same symbols with the same multiplicities) have the same key.
\<close>

theorem get_cache_key_permutation:
  "mset tks = mset tks' \<Longrightarrow> get_cache_key date tks = get_cache_key date tks'"
  using sort_cong_mset [of tks tks']
  by (simp add: get_cache_key_def cache_key_data_def)

theorem get_cache_key_permutation_witness:
  "mset [''BBB'', ''AAA''] = mset [''AAA'', ''BBB'']
   \<and> get_cache_key ''2024-03-01'' [''BBB'', ''AAA''] = get_cache_key ''2024-03-01'' [''AAA'', ''BBB'']"
  using get_cache_key_permutation [of "[''BBB'', ''AAA'']" "[''AAA'', ''BBB'']" "''2024-03-01''"]
  by simp


text \<open>
  The symbol list is sorted but it is not deduplicated before it is hashed.  For the date
  \<^verbatim>\<open>2024-03-01\<close> the lists \<^verbatim>\<open>['AAA', 'AAA']\<close> and \<^verbatim>\<open>['AAA']\<close>, which are equal
  after sorting and removing duplicates, have different keys: the digests of the strings
  \<^verbatim>\<open>2024-03-01_AAA_AAA\<close> and \<^verbatim>\<open>2024-03-01_AAA\<close>.
\<close>

lemma key_aaa: "get_cache_key ''2024-03-01'' [''AAA''] = ''3e76468b88523d2a7a7f16f3e3c6fd96''"
  by code_simp


lemma key_aaa_aaa: "get_cache_key ''2024-03-01'' [''AAA'', ''AAA''] = ''e403bcb00d5269cbe96f0343b8408baa''"
  by code_simp


theorem get_cache_key_duplicates_counterexample:
  "remdups (sort [''AAA'', ''AAA'']) = remdups (sort [''AAA''])
   \<and> get_cache_key ''2024-03-01'' [''AAA'', ''AAA''] \<noteq> get_cache_key ''2024-03-01'' [''AAA'']"
  by (simp add: key_aaa key_aaa_aaa)


subsection \<open>Reading the cache\<close>

lemma get_data_unreadable:
  "fs (get_cache_path (get_cache_key date tks)) = Some Unreadable \<Longrightarrow>
   get_data now fs date tks = ((None, []), fs)"
  by (simp add: get_data_def)

text \<open>The sibling \<open>clear_expired\<close> does remove an unreadable cache file.\<close>

lemma clear_expired_unreadable:
  "is_cache_file p \<Longrightarrow> fs p = Some Unreadable \<Longrightarrow> clear_expired now fs p = None"
  by (simp add: clear_expired_def)


text \<open>
  Claim C8 on the code.  When the file of the key exists and cannot be read, \<open>get_data\<close>
  reports a miss, and the file system after the call still holds the unreadable file: it
  is not deleted.
\<close>

theorem get_data_unreadable_file_remains:
  "get_data 0 [get_cache_path (get_cache_key ''2024-03-01'' [''AAA'']) \<mapsto> Unreadable]
      ''2024-03-01'' [''AAA'']
     = ((None, []), [get_cache_path (get_cache_key ''2024-03-01'' [''AAA'']) \<mapsto> Unreadable])"
  by (simp add: get_data_def)



subsection \<open>Backfill\<close>

lemma map_of_dict_set: "map_of (dict_set k v d) = (map_of d)(k \<mapsto> v)"
  by (induction d) (auto simp: fun_eq_iff)


lemma backfill_item_keeps:
  "map_of e k = Some v \<Longrightarrow> \<not> missing_sentinel v \<Longrightarrow> map_of (backfill_item kv e) k = Some v"
  by (auto simp: backfill_item_def map_of_dict_set split: option.splits)


lemma backfill_entry_keeps:
  "map_of e k = Some v \<Longrightarrow> \<not> missing_sentinel v \<Longrightarrow> map_of (backfill_entry nd e) k = Some v"
  unfolding backfill_entry_def
  by (induction nd arbitrary: e) (simp_all add: backfill_item_keeps)


lemma backfill_entries_keeps:
  "backfill_entries nd es = Inr es' \<Longrightarrow>
   length es' = length es
   \<and> (\<forall>i < length es. \<forall>k v. map_of (es ! i) k = Some v \<and> \<not> missing_sentinel v
          \<longrightarrow> map_of (es' ! i) k = Some v)"
proof (induction es arbitrary: es')
  case Nil
  then show ?case by simp
next
  case (Cons e es)
  from Cons.prems obtain t t' rest where
    rest: "backfill_entries nd es = Inr rest"
    and es': "es' = (if py_eq t t' then backfill_entry nd e else e) # rest"
    by (auto split: sum.splits)
  from Cons.IH [OF rest] have len: "length rest = length es"
    and keep: "\<And>i k v. i < length es \<Longrightarrow> map_of (es ! i) k = Some v \<Longrightarrow> \<not> missing_sentinel v
                 \<Longrightarrow> map_of (rest ! i) k = Some v"
    by auto
  show ?case
  proof (intro conjI allI impI)
    show "length es' = length (e # es)"
      using len es' by simp
  next
    fix i k v
    assume i: "i < length (e # es)"
      and kv: "map_of ((e # es) ! i) k = Some v \<and> \<not> missing_sentinel v"
    show "map_of (es' ! i) k = Some v"
    proof (cases i)
      case 0
      with kv es' show ?thesis
        by (simp add: backfill_entry_keeps)
    next
      case (Suc j)
      with i kv es' keep [of j k v] show ?thesis
        by simp
    qed
  qed
qed


text \<open>
  Claim C3.  When the cache file of the key holds an entry, \<open>update_missing_data\<close> leaves
  an entry in that file with the same number of records, and every field of every record
  whose stored value is not a missing sentinel (the test of line 657: equal to
  \<^verbatim>\<open>'N/A'\<close>, \<^verbatim>\<open>None\<close>, or equal to \<^verbatim>\<open>0\<close>, which in Python includes \<^verbatim>\<open>0.0\<close> and
  \<^verbatim>\<open>False\<close>) keeps its value, whatever the update holds.  The witness is the
  specification's example: a stored \<^verbatim>\<open>current_iv = 0.32\<close> and an update with
  \<^verbatim>\<open>current_iv = None\<close>.
\<close>

theorem update_missing_data_keeps_populated:
  assumes "fs (get_cache_path (get_cache_key date tks)) = Some (Pickled c)"
  shows "\<exists>c'. update_missing_data fs date tks new_data (get_cache_path (get_cache_key date tks))
               = Some (Pickled c')
           \<and> length (c_data c') = length (c_data c)
           \<and> (\<forall>i < length (c_data c). \<forall>k v.
                 map_of (c_data c ! i) k = Some v \<and> \<not> missing_sentinel v
                 \<longrightarrow> map_of (c_data c' ! i) k = Some v)"
proof (cases "backfill_entries new_data (c_data c)")
  case (Inl e)
  with assms show ?thesis
    by (simp add: update_missing_data_def)
next
  case (Inr dat)
  note keeps = backfill_entries_keeps [OF Inr]
  show ?thesis
  proof (cases "identify_missing_data dat")
    case (Inl e)
    with Inr assms show ?thesis
      by (simp add: update_missing_data_def)
  next
    case (Inr missing)
    with \<open>backfill_entries new_data (c_data c) = Inr dat\<close> assms keeps show ?thesis
      by (simp add: update_missing_data_def)
  qed
qed

theorem update_missing_data_keeps_populated_witness:
  "\<exists>c'. update_missing_data
          [get_cache_path (get_cache_key ''2024-03-01'' [''AAA'']) \<mapsto>
             Pickled \<lparr>c_timestamp = 0, c_date = ''2024-03-01'', c_tickers = [''AAA''],
                      c_data = [[(''ticker'', PStr ''AAA''), (''current_iv'', PNum (Fin 0.32)),
                                 (''expected_move'', PStr ''N/A'')]],
                      c_missing_data = []\<rparr>]
          ''2024-03-01'' [''AAA'']
          [(''ticker'', PStr ''AAA''), (''current_iv'', PNone), (''expected_move'', PStr ''4.2%'')]
          (get_cache_path (get_cache_key ''2024-03-01'' [''AAA'']))
        = Some (Pickled c')
      \<and> map_of (c_data c' ! 0) ''current_iv'' = Some (PNum (Fin 0.32))"
proof -
  let ?c = "\<lparr>c_timestamp = 0, c_date = ''2024-03-01'', c_tickers = [''AAA''],
             c_data = [[(''ticker'', PStr ''AAA''), (''current_iv'', PNum (Fin 0.32)),
                        (''expected_move'', PStr ''N/A'')]],
             c_missing_data = []\<rparr>"
  let ?cp = "get_cache_path (get_cache_key ''2024-03-01'' [''AAA''])"
  let ?nd = "[(''ticker'', PStr ''AAA''), (''current_iv'', PNone), (''expected_move'', PStr ''4.2%'')]"
  have stored: "[?cp \<mapsto> Pickled ?c] ?cp = Some (Pickled ?c)"
    by simp
  have populated: "map_of (c_data ?c ! 0) ''current_iv'' = Some (PNum (Fin 0.32))
                   \<and> \<not> missing_sentinel (PNum (Fin 0.32))"
    by (simp add: missing_sentinel_def py_eq_def)
  from update_missing_data_keeps_populated
         [where fs = "[?cp \<mapsto> Pickled ?c]" and date = "''2024-03-01''" and tks = "[''AAA'']"
            and c = "?c" and new_data = "?nd", OF stored]
  obtain c' where
    c': "update_missing_data [?cp \<mapsto> Pickled ?c] ''2024-03-01'' [''AAA''] ?nd ?cp
           = Some (Pickled c')"
    and keep: "\<forall>i < length (c_data ?c). \<forall>k v.
                 map_of (c_data ?c ! i) k = Some v \<and> \<not> missing_sentinel v
                 \<longrightarrow> map_of (c_data c' ! i) k = Some v"
    by blast
  have "0 < length (c_data ?c)"
    by simp
  with keep populated have "map_of (c_data c' ! 0) ''current_iv'' = Some (PNum (Fin 0.32))"
    by blast
  with c' show ?thesis
    by blast
qed

subsection \<open>The term structure\<close>

lemma filter_less_strict_sorted:
  "sorted_wrt (<) (xs :: real list) \<Longrightarrow> j < length xs \<Longrightarrow> filter (\<lambda>a. a < xs ! j) xs = take j xs"
proof (induction xs arbitrary: j)
  case Nil
  then show ?case by simp
next
  case (Cons x xs)
  show ?case
  proof (cases j)
    case 0
    with Cons.prems show ?thesis
      by (auto simp: filter_empty_conv)
  next
    case (Suc k)
    with Cons.prems have "x < xs ! k" by auto
    with Suc Cons show ?thesis by simp
  qed
qed

lemma searchsorted_knot:
  "sorted_wrt (<) xs \<Longrightarrow> j < length xs \<Longrightarrow> searchsorted xs (xs ! j) = j"
  by (simp add: searchsorted_def filter_less_strict_sorted)

lemma argsort_mset: "mset (argsort xs) = mset [0..<length xs]"
proof -
  have 1: "map snd (zip xs [0..<length xs]) = [0..<length xs]"
    by simp
  have "mset (argsort xs) = image_mset snd (mset (sort_key fst (zip xs [0..<length xs])))"
    by (simp only: argsort_def mset_map)
  also have "\<dots> = mset (map snd (zip xs [0..<length xs]))"
    by (simp only: mset_sort mset_map)
  finally show ?thesis
    by (simp only: 1)
qed

lemma argsort_set: "set (argsort xs) = {0..<length xs}"
  using mset_eq_setD [OF argsort_mset [of xs]] by simp

lemma argsort_length: "length (argsort xs) = length xs"
  using mset_eq_length [OF argsort_mset [of xs]] by simp

lemma argsort_distinct: "distinct (argsort xs)"
  using mset_eq_imp_distinct_iff [OF argsort_mset [of xs]] by simp

lemma argsort_days: "map (\<lambda>i. xs ! i) (argsort xs) = map fst (sort_key fst (zip xs [0..<length xs]))"
proof -
  have "\<forall>p \<in> set (sort_key fst (zip xs [0..<length xs])). xs ! snd p = fst p"
    by (auto simp: set_zip)
  then show ?thesis
    by (simp add: argsort_def)
qed

lemma argsort_sorted: "sorted (map (\<lambda>i. xs ! i) (argsort xs))"
  by (simp add: argsort_days)

lemma argsort_strict:
  assumes "distinct xs"
  shows "sorted_wrt (<) (map (\<lambda>i. real_of_int (xs ! i)) (argsort xs))"
proof -
  have inj: "inj_on (\<lambda>i. xs ! i) (set (argsort xs))"
    using assms by (auto simp: inj_on_def argsort_set nth_eq_iff_index_eq)
  have "distinct (map (\<lambda>i. xs ! i) (argsort xs))"
    using inj argsort_distinct by (simp add: distinct_map)
  with argsort_sorted [of xs] have "sorted_wrt (<) (map (\<lambda>i. xs ! i) (argsort xs))"
    by (simp add: strict_sorted_iff)
  then have "sorted_wrt (<) (map real_of_int (map (\<lambda>i. xs ! i) (argsort xs)))"
    by (simp add: sorted_wrt_map)
  then show ?thesis
    by (simp add: comp_def)
qed

lemma interp1d_linear_knot:
  assumes strict: "sorted_wrt (<) x" and len: "length y = length x"
    and n2: "2 \<le> length x" and j: "j < length x"
  shows "interp1d_linear x y (x ! j) = Fin (y ! j)"
proof (cases j)
  case 0
  have "x ! 0 < x ! 1"
    using strict n2 by (simp add: sorted_wrt_iff_nth_less)
  with 0 n2 j strict show ?thesis
    by (simp add: interp1d_linear_def searchsorted_knot py_nth_def Let_def)
next
  case (Suc k)
  have lt: "x ! k < x ! Suc k"
    using strict j Suc by (simp add: sorted_wrt_iff_nth_less)
  have i: "min (max (int (searchsorted x (x ! j))) 1) (int (length x) - 1) = int (Suc k)"
    using Suc j strict by (simp add: searchsorted_knot)
  have nth_nat: "py_nth xs (int m) = xs ! m" for xs :: "real list" and m
    unfolding py_nth_def by (simp only: nat_int of_nat_less_0_iff if_False)
  have lo: "int (Suc k) - 1 = int k"
    by simp
  show ?thesis
    unfolding interp1d_linear_def i Let_def lo nth_nat
    using lt Suc by (simp add: field_simps)
qed

lemma build_term_structure_unfold:
  assumes "length days = length ivs" and "2 \<le> length days"
  shows "build_term_structure single_ok days ivs q =
           (let da = map (\<lambda>i. real_of_int (days ! i)) (argsort days);
                va = map (\<lambda>i. ivs ! i) (argsort days)
            in if q < da ! 0 then Fin (va ! 0)
               else if last da < q then Fin (last va)
               else interp1d_linear da va q)"
proof -
  have "\<not> (\<exists>k \<in> set (argsort days). length ivs \<le> k)"
    using assms by (auto simp: argsort_set)
  moreover have "\<not> length (argsort days) < (if single_ok then 1 else 2)"
    using assms by (cases single_ok) (auto simp: argsort_length)
  ultimately show ?thesis
    by (simp add: build_term_structure_def Let_def)
qed

text \<open>
  Where the knots have pairwise distinct days and there are at least two of them, the term
  structure clamps and is exact at the knots: a query strictly below the least day gives the
  volatility of the knot of the least day, a query strictly above the greatest day gives the
  volatility of the knot of the greatest day, and a query at the day of a knot gives the
  volatility of that knot (exactly, in real arithmetic).  This holds whichever least number
  of knots the interpolation library accepts.
\<close>

theorem build_term_structure_clamps:
  assumes len: "length days = length ivs" and dist: "distinct days"
    and n2: "2 \<le> length days" and i: "i < length days"
  shows "(days ! i = Min (set days) \<longrightarrow>
            (\<forall>q. q < real_of_int (days ! i)
                 \<longrightarrow> build_term_structure single_ok days ivs q = Fin (ivs ! i)))
       \<and> (days ! i = Max (set days) \<longrightarrow>
            (\<forall>q. real_of_int (days ! i) < q
                 \<longrightarrow> build_term_structure single_ok days ivs q = Fin (ivs ! i)))
       \<and> build_term_structure single_ok days ivs (real_of_int (days ! i)) = Fin (ivs ! i)"
proof -
  define idx where "idx = argsort days"
  define da where "da = map (\<lambda>i. real_of_int (days ! i)) idx"
  define va where "va = map (\<lambda>i. ivs ! i) idx"
  define n where "n = length days"
  have idx_set: "set idx = {0..<n}" and idx_len: "length idx = n"
    by (simp_all add: idx_def n_def argsort_set argsort_length)
  have da_len: "length da = n" and va_len: "length va = n"
    by (simp_all add: da_def va_def idx_len)
  have strict: "sorted_wrt (<) da"
    unfolding da_def idx_def using dist by (rule argsort_strict)
  have no_raise: "\<not> (\<exists>k \<in> set idx. length ivs \<le> k)"
    using len by (auto simp: idx_set n_def)
  have bts: "build_term_structure single_ok days ivs q =
               (if q < da ! 0 then Fin (va ! 0)
                else if last da < q then Fin (last va)
                else interp1d_linear da va q)" for q
    using build_term_structure_unfold [OF len n2, of single_ok q]
    by (simp add: Let_def da_def va_def idx_def)
  from i idx_set have "i \<in> set idx"
    by (simp add: n_def)
  then obtain j where "j < length idx" and idx_j: "idx ! j = i"
    by (auto simp: in_set_conv_nth)
  then have j: "j < n"
    by (simp add: idx_len)
  have da_j: "da ! j = real_of_int (days ! i)" and va_j: "va ! j = ivs ! i"
    using j idx_j idx_len by (simp_all add: da_def va_def)
  have n_pos: "0 < n"
    using n2 unfolding n_def by linarith
  have ne: "da \<noteq> []" "va \<noteq> []"
    using n_pos da_len va_len by auto
  have last_da: "last da = da ! (n - 1)"
    using last_conv_nth [OF ne(1)] by (simp only: da_len)
  have last_va: "last va = va ! (n - 1)"
    using last_conv_nth [OF ne(2)] by (simp only: va_len)
  have da_0: "da ! 0 = real_of_int (days ! (idx ! 0))"
    using n_pos idx_len by (simp add: da_def)
  have da_last: "da ! (n - 1) = real_of_int (days ! (idx ! (n - 1)))"
    using n_pos idx_len by (simp add: da_def)
  have sorted_da: "sorted da"
    using strict by (simp add: strict_sorted_iff)
  have lo: "da ! 0 \<le> da ! k" if "k < n" for k
    using sorted_da that da_len by (simp add: sorted_iff_nth_mono)
  have hi: "da ! k \<le> da ! (n - 1)" if "k < n" for k
    using sorted_da that da_len by (simp add: sorted_iff_nth_mono)
  have days_da: "real_of_int (days ! k) \<in> set da" if "k < n" for k
  proof -
    from that idx_set have "k \<in> set idx" by simp
    then show ?thesis by (auto simp: da_def)
  qed
  have knot: "build_term_structure single_ok days ivs (real_of_int (days ! i)) = Fin (ivs ! i)"
  proof -
    have "interp1d_linear da va (da ! j) = Fin (va ! j)"
      by (rule interp1d_linear_knot) (use strict va_len da_len n2 j in \<open>simp_all add: n_def\<close>)
    moreover have "\<not> da ! j < da ! 0" "\<not> last da < da ! j"
      using lo [OF j] hi [OF j] by (simp_all add: last_da)
    ultimately show ?thesis
      by (simp add: bts da_j [symmetric] va_j [symmetric])
  qed
  have below: "build_term_structure single_ok days ivs q = Fin (ivs ! i)"
    if mn: "days ! i = Min (set days)" and q: "q < real_of_int (days ! i)" for q
  proof -
    have "idx ! 0 < n"
      using idx_set idx_len n_pos by (metis atLeastLessThan_iff nth_mem)
    then have "days ! i \<le> days ! (idx ! 0)"
      unfolding mn by (simp add: n_def)
    then have "da ! j \<le> da ! 0"
      by (simp only: da_j da_0 of_int_le_iff)
    with lo [OF j] have "da ! j = da ! 0"
      by simp
    then have "j = 0"
      using strict j n_pos da_len
      by (metis nth_eq_iff_index_eq strict_sorted_iff)
    with q show ?thesis
      by (simp add: bts da_j [symmetric] va_j [symmetric])
  qed
  have above: "build_term_structure single_ok days ivs q = Fin (ivs ! i)"
    if mx: "days ! i = Max (set days)" and q: "real_of_int (days ! i) < q" for q
  proof -
    have "idx ! (n - 1) < n"
      using idx_set idx_len n_pos
      by (metis atLeastLessThan_iff diff_less nth_mem zero_less_one)
    then have "days ! (idx ! (n - 1)) \<le> days ! i"
      unfolding mx by (simp add: n_def)
    then have "da ! (n - 1) \<le> da ! j"
      by (simp only: da_j da_last of_int_le_iff)
    with hi [OF j] have "da ! j = da ! (n - 1)"
      by simp
    then have jn: "j = n - 1"
      using strict j n_pos da_len
      by (metis diff_less nth_eq_iff_index_eq strict_sorted_iff zero_less_one)
    have last_j: "last da = da ! j" "last va = va ! j"
      by (simp_all only: last_da last_va jn)
    have "da ! 0 \<le> da ! j"
      by (rule lo [OF j])
    with q have "\<not> q < da ! 0" "last da < q"
      by (simp_all add: last_j da_j)
    then show ?thesis
      by (simp add: bts last_j va_j)
  qed
  from knot below above show ?thesis
    by blast
qed

theorem build_term_structure_clamps_witness:
  "build_term_structure True [40, 10, 70] [0.3, 0.5, 0.2] 9 = Fin 0.5
   \<and> build_term_structure True [40, 10, 70] [0.3, 0.5, 0.2] 71 = Fin 0.2
   \<and> build_term_structure True [40, 10, 70] [0.3, 0.5, 0.2] 40 = Fin 0.3"
proof -
  have h: "length [40, 10, 70 :: int] = length [0.3, 0.5, 0.2 :: real]"
    "distinct [40, 10, 70 :: int]" "2 \<le> length [40, 10, 70 :: int]"
    by simp_all
  have "[40, 10, 70 :: int] ! 1 = Min (set [40, 10, 70])" "(9 :: real) < real_of_int ([40, 10, 70] ! 1)"
    by simp_all
  with build_term_structure_clamps [OF h, of 1 True]
  have a: "build_term_structure True [40, 10, 70] [0.3, 0.5, 0.2] 9 = Fin 0.5"
    by simp
  have "[40, 10, 70 :: int] ! 2 = Max (set [40, 10, 70])" "real_of_int ([40, 10, 70] ! 2) < (71 :: real)"
    by simp_all
  with build_term_structure_clamps [OF h, of 2 True]
  have b: "build_term_structure True [40, 10, 70] [0.3, 0.5, 0.2] 71 = Fin 0.2"
    by simp
  from build_term_structure_clamps [OF h, of 0 True]
  have c: "build_term_structure True [40, 10, 70] [0.3, 0.5, 0.2] 40 = Fin 0.3"
    by simp
  from a b c show ?thesis
    by simp
qed

text \<open>
  Claim C4 on the code.  A single knot is an input the program produces: when the earliest
  listed expiration is already 45 days out or more, \<open>filter_dates\<close> returns that
  expiration alone, and line 420 queries the term structure at its day.  With the one knot
  (50 days, volatility 0.4) the queries on both sides of the knot return 0.4, as the claim
  says, but the query at the knot itself passes both strict tests of the clamp and reaches
  the interpolation, which divides zero by zero: the result is a not-a-number and not the
  volatility of the knot.  Where the interpolation library refuses a single knot, the
  handler returns the function that is a not-a-number everywhere, at the knot too.
\<close>

theorem build_term_structure_single_knot:
  "filter_dates 100 [150, 180, 240] = Inr [150]
   \<and> build_term_structure True [150 - 100] [0.4] 49 = Fin 0.4
   \<and> build_term_structure True [150 - 100] [0.4] 51 = Fin 0.4
   \<and> build_term_structure True [150 - 100] [0.4] 50 = NaN
   \<and> build_term_structure False [150 - 100] [0.4] 50 = NaN"
  by (simp add: filter_dates_def build_term_structure_def argsort_def interp1d_linear_def
        searchsorted_def py_nth_def Let_def)

text \<open>Two knots on the same day give a not-a-number at that day as well.\<close>

lemma build_term_structure_repeated_day:
  "build_term_structure True [10, 10] [0.3, 0.5] 10 = NaN
   \<and> build_term_structure False [10, 10] [0.3, 0.5] 10 = NaN"
  by (simp add: build_term_structure_def argsort_def interp1d_linear_def searchsorted_def
        py_nth_def Let_def)

subsection \<open>Empty symbols\<close>

lemma strip_spaces: "\<forall>c \<in> set s. py_isspace c \<Longrightarrow> strip s = []"
proof -
  assume "\<forall>c \<in> set s. py_isspace c"
  then have d: "dropWhile py_isspace s = []"
    by simp
  show ?thesis
    unfolding strip_def d by simp
qed

text \<open>
  Claim C10.  For a symbol that is empty or consists of white space only,
  \<open>compute_recommendation\<close> returns the error \<^verbatim>\<open>No symbol provided.\<close> at the first attempt,
  and the state is the one it started in: no request was made and no session was rotated.
\<close>

theorem compute_recommendation_no_symbol:
  "\<forall>c \<in> set symbol. py_isspace c \<Longrightarrow>
   compute_recommendation env symbol 0 w = (Inl ''No symbol provided.'', w)"
proof -
  assume "\<forall>c \<in> set symbol. py_isspace c"
  then have "try_recommendation env symbol w = (Inr (Inl ''No symbol provided.''), w)"
    by (simp add: try_recommendation_def strip_spaces upper_def)
  then show ?thesis
    by (subst compute_recommendation.simps) simp
qed

theorem compute_recommendation_no_symbol_witness:
  "py_isspace (CHR '' '')
   \<and> compute_recommendation offline_env '' '' 0 empty_world = (Inl ''No symbol provided.'', empty_world)
   \<and> compute_recommendation offline_env [] 0 empty_world = (Inl ''No symbol provided.'', empty_world)"
  using compute_recommendation_no_symbol [of "'' ''" offline_env empty_world]
    compute_recommendation_no_symbol [of "[]" offline_env empty_world]
  by (simp add: py_isspace_def)


subsection \<open>Numerical edge cases of the recommendation\<close>

lemma iv30_rv30_no_error: "iv30_rv30 iv30 hv \<noteq> Inl e"
  by (cases iv30; cases hv) (auto simp: iv30_rv30_def)

lemma term_slope_no_error: "term_slope spline d0 \<noteq> Inl e"
  by (cases "spline 45"; cases "spline (real_of_int d0)") (auto simp: term_slope_def Let_def)

lemma analyze_chains_result:
  assumes "analyze_chains env s up tv oc w = (Inr (Inr r), w')"
  shows "iv30_rv30 (r_term_structure r) (r_historical_volatility r) = Inr (r_iv30_rv30 r)
       \<and> term_slope
            (build_term_structure (e_single_ok env)
               (map (\<lambda>x. fst x - e_today env) (fst (foldl (atm_step up) ([], None, None, 0) oc)))
               (map snd (fst (foldl (atm_step up) ([], None, None, 0) oc))))
            (Min (set (map (\<lambda>x. fst x - e_today env)
                         (fst (foldl (atm_step up) ([], None, None, 0) oc)))))
           = Inr (r_term_slope r)"
  using assms
  by (auto simp: analyze_chains_def Let_def request_def
           split: prod.splits if_splits sum.splits option.splits)

lemma try_recommendation_ratio:
  assumes "try_recommendation env symbol w = (Inr (Inr r), w')"
  shows "iv30_rv30 (r_term_structure r) (r_historical_volatility r) = Inr (r_iv30_rv30 r)"
  using assms analyze_chains_result
  by (auto simp: try_recommendation_def Let_def split: prod.splits if_splits sum.splits)

lemma compute_recommendation_ratio:
  "compute_recommendation env symbol attempt w = (Inr r, w') \<Longrightarrow>
   iv30_rv30 (r_term_structure r) (r_historical_volatility r) = Inr (r_iv30_rv30 r)"
proof (induction env symbol attempt w rule: compute_recommendation.induct)
  case (1 env symbol attempt w)
  show ?case
  proof (cases "try_recommendation env symbol w")
    case (Pair res w1)
    show ?thesis
    proof (cases res)
      case (Inl e)
      with Pair "1.prems" have "attempt < 2"
        by (subst (asm) compute_recommendation.simps) (auto split: if_splits)
      moreover from this Pair Inl "1.prems"
      have "compute_recommendation env symbol (Suc attempt) (rotate_session env w1) = (Inr r, w')"
        by (subst (asm) compute_recommendation.simps) simp
      ultimately show ?thesis
        using "1.IH" Pair Inl by simp
    next
      case (Inr result)
      with Pair "1.prems" have "result = Inr r" "w1 = w'"
        by (subst (asm) compute_recommendation.simps, simp)+
      with Pair Inr show ?thesis
        using try_recommendation_ratio by simp
    qed
  qed
qed

text \<open>
  Claim C5.  Lines 424-427 set the ratio to 9999 when the realized volatility is zero, and
  never raise a division error; lines 415-420 give the slope 0 when the earliest expiry is
  45 days out.  In the function as a whole: a recommendation that \<open>compute_recommendation\<close>
  returns with a historical volatility of zero has the ratio 9999, and a recommendation
  computed from chains whose earliest usable expiry is 45 days out has the slope 0.
\<close>

theorem compute_recommendation_edge_cases:
  "iv30_rv30 iv30 (Fin 0) = Inr (Fin 9999)
   \<and> iv30_rv30 iv30 hv \<noteq> Inl ZeroDivisionError
   \<and> term_slope spline 45 = Inr (Fin 0)
   \<and> (compute_recommendation env symbol 0 w = (Inr r, w') \<and> r_historical_volatility r = Fin 0
        \<longrightarrow> r_iv30_rv30 r = Fin 9999)
   \<and> (analyze_chains env s up tv oc w = (Inr (Inr r), w')
        \<and> Min (set (map (\<lambda>x. fst x - e_today env)
                      (fst (foldl (atm_step up) ([], None, None, 0) oc)))) = 45
        \<longrightarrow> r_term_slope r = Fin 0)"
proof (intro conjI impI)
  show "iv30_rv30 iv30 (Fin 0) = Inr (Fin 9999)"
    by (simp add: iv30_rv30_def)
  show "iv30_rv30 iv30 hv \<noteq> Inl ZeroDivisionError"
    by (rule iv30_rv30_no_error)
  show "term_slope spline 45 = Inr (Fin 0)"
    by (simp add: term_slope_def)
next
  assume a: "compute_recommendation env symbol 0 w = (Inr r, w') \<and> r_historical_volatility r = Fin 0"
  then have "iv30_rv30 (r_term_structure r) (r_historical_volatility r) = Inr (r_iv30_rv30 r)"
    using compute_recommendation_ratio by blast
  with a show "r_iv30_rv30 r = Fin 9999"
    by (simp add: iv30_rv30_def)
next
  assume a: "analyze_chains env s up tv oc w = (Inr (Inr r), w')
        \<and> Min (set (map (\<lambda>x. fst x - e_today env)
                      (fst (foldl (atm_step up) ([], None, None, 0) oc)))) = 45"
  with analyze_chains_result [of env s up tv oc w r w']
  show "r_term_slope r = Fin 0"
    by (simp add: term_slope_def)
qed

text \<open>The run on \<open>flat_env\<close>, whose only expiry is 45 days out and whose volatility is zero.\<close>

lemma true_ranges_flat:
  "true_ranges pc (replicate n one_bar) = replicate n 0" if "pc = None \<or> pc = Some 10"
  using that by (induction n arbitrary: pc) (auto simp: one_bar_def)

lemma flat_try:
  "try_recommendation flat_env ''aaa'' empty_world =
     (Inr (Inr \<lparr>r_avg_volume = True, r_avg_volume_value = 2000000,
         r_iv30_rv30 = Fin 9999, r_term_slope = Fin 0,
         r_term_structure = Fin 0.4, r_expected_move = ''?%'',
         r_underlying_price = 10, r_historical_volatility = Fin 0,
         r_current_iv = Some 0.4, r_atr14 = Fin 0, r_market_cap = 0,
         r_volume = 2000000\<rparr>), empty_world\<lparr>w_requests := 6\<rparr>)"
  using true_ranges_flat [of None 30]
  by (simp add: try_recommendation_def Let_def strip_def upper_def py_isspace_def flat_env_def
      empty_world_def request_def filter_dates_def get_current_price.simps
      one_quote_def analyze_chains_def atm_step_def build_term_structure_def argsort_def
      term_slope_def iv30_rv30_def avg_volume_30_def atr14_def sum_list_replicate
      one_bar_def)

lemma flat_compute:
  "compute_recommendation flat_env ''aaa'' 0 empty_world =
     (Inr \<lparr>r_avg_volume = True, r_avg_volume_value = 2000000,
         r_iv30_rv30 = Fin 9999, r_term_slope = Fin 0,
         r_term_structure = Fin 0.4, r_expected_move = ''?%'',
         r_underlying_price = 10, r_historical_volatility = Fin 0,
         r_current_iv = Some 0.4, r_atr14 = Fin 0, r_market_cap = 0,
         r_volume = 2000000\<rparr>, empty_world\<lparr>w_requests := 6\<rparr>)"
  by (subst compute_recommendation.simps) (simp add: flat_try)

lemma flat_chains:
  "analyze_chains flat_env ''AAA'' 10 2000000
      [(45, \<lparr>calls = [one_quote], puts = [one_quote]\<rparr>)] empty_world =
     (Inr (Inr \<lparr>r_avg_volume = True, r_avg_volume_value = 2000000,
         r_iv30_rv30 = Fin 9999, r_term_slope = Fin 0,
         r_term_structure = Fin 0.4, r_expected_move = ''?%'',
         r_underlying_price = 10, r_historical_volatility = Fin 0,
         r_current_iv = Some 0.4, r_atr14 = Fin 0, r_market_cap = 0,
         r_volume = 2000000\<rparr>), empty_world\<lparr>w_requests := 2\<rparr>)"
  using true_ranges_flat [of None 30]
  by (simp add: Let_def flat_env_def empty_world_def request_def
      one_quote_def analyze_chains_def atm_step_def build_term_structure_def argsort_def
      term_slope_def iv30_rv30_def avg_volume_30_def atr14_def sum_list_replicate
      one_bar_def)

theorem compute_recommendation_edge_cases_witness:
  "(\<exists>r w'. compute_recommendation flat_env ''aaa'' 0 empty_world = (Inr r, w')
          \<and> r_historical_volatility r = Fin 0 \<and> r_iv30_rv30 r = Fin 9999)
   \<and> (\<exists>r w'. analyze_chains flat_env ''AAA'' 10 2000000
                [(45, \<lparr>calls = [one_quote], puts = [one_quote]\<rparr>)] empty_world
              = (Inr (Inr r), w')
          \<and> Min (set (map (\<lambda>x. fst x - e_today flat_env)
                 (fst (foldl (atm_step 10) ([], None, None, 0)
                        [(45, \<lparr>calls = [one_quote], puts = [one_quote]\<rparr>)])))) = 45
          \<and> r_term_slope r = Fin 0)"
proof -
  let ?r = "\<lparr>r_avg_volume = True, r_avg_volume_value = 2000000,
         r_iv30_rv30 = Fin 9999, r_term_slope = Fin 0,
         r_term_structure = Fin 0.4, r_expected_move = ''?%'',
         r_underlying_price = 10, r_historical_volatility = Fin 0,
         r_current_iv = Some 0.4, r_atr14 = Fin 0, r_market_cap = 0,
         r_volume = 2000000\<rparr>"
  let ?oc = "[(45 :: int, \<lparr>calls = [one_quote], puts = [one_quote]\<rparr>)]"
  have hv: "r_historical_volatility ?r = Fin 0"
    by simp
  have d0: "Min (set (map (\<lambda>x. fst x - e_today flat_env)
                 (fst (foldl (atm_step 10) ([], None, None, 0) ?oc)))) = 45"
    by (simp add: atm_step_def flat_env_def Let_def)
  from compute_recommendation_edge_cases
         [where env = flat_env and symbol = "''aaa''" and w = empty_world and r = ?r
            and w' = "empty_world\<lparr>w_requests := 6\<rparr>"]
       flat_compute hv
  have ratio: "r_iv30_rv30 ?r = Fin 9999"
    by blast
  from compute_recommendation_edge_cases
         [where env = flat_env and s = "''AAA''" and up = 10 and tv = 2000000 and oc = ?oc
            and w = empty_world and r = ?r and w' = "empty_world\<lparr>w_requests := 2\<rparr>"]
       flat_chains d0
  have slope: "r_term_slope ?r = Fin 0"
    by blast
  from flat_compute hv ratio flat_chains d0 slope show ?thesis
    by blast
qed


subsection \<open>The scan and the failures of an analysis\<close>


















end
